theory Spec2Isabelle
  imports Complex_Main "HOL-Library.Word"
begin

section \<open>The pybind11 wrappers of the point-cloud visualizer (\<open>_viz.cpp\<close>)\<close>

text \<open>
  The file embeds the wrapper functions of \<open>src/python/src/cpp/_viz.cpp\<close>: the two
  validation helpers \<open>check_array\<close> and \<open>tuple_to_float_array\<close>, the lambdas bound
  as methods of \<open>Cloud\<close>, \<open>Image\<close>, \<open>Cuboid\<close> and \<open>Label\<close>, and the rendering loop
  bound as \<open>PointViz.run\<close>.

  Conventions.
  \<^item> A C++ exception is a value: a wrapper returns \<open>(error + unit) \<times> state\<close>, the
    outcome of the call together with the receiving object afterwards.
  \<^item> \<open>size_t\<close> is a 64-bit word, so \<open>get_size() * 4\<close> wraps as it does in C++.
    \<open>array.size()\<close> and \<open>array.ndim()\<close> are non-negative \<open>ssize_t\<close> values, so
    the \<open>static_cast<size_t>\<close> applied to them preserves the value; they are
    naturals, compared with the \<open>unat\<close> of the expected \<open>size_t\<close>.
  \<^item> The elements of a NumPy buffer are handed on as they are, without any
    conversion, and are written as reals. Where the code converts a Python number to
    \<open>float\<close> (the colour tuples), the result is a \<open>float32\<close> and the conversion is
    a parameter of the model, so that rounding and overflow are whatever the
    platform makes them. The cast of the lookup table in the structured constructor
    is kept as the identity on the entries: what is stated about that constructor is
    which component of the table it hands over.
\<close>

subsection \<open>Errors\<close>

datatype error =
    Invalid_argument string   \<comment> \<open>\<open>std::invalid_argument\<close> (a Python \<open>ValueError\<close>)\<close>
  | Type_error string         \<comment> \<open>\<open>py::type_error\<close>\<close>
  | Index_error               \<comment> \<open>\<open>py::index_error\<close>, from \<open>array.shape(i)\<close> out of range\<close>
  | Error_already_set         \<comment> \<open>\<open>py::error_already_set\<close>: the pending Python exception\<close>

type_synonym size_t = "64 word"

text \<open>\<open>std::to_string\<close> on an unsigned value: its decimal digits.\<close>

fun to_string :: "nat \<Rightarrow> string" where
  "to_string k =
     (if k < 10 then [char_of (48 + k)]
      else to_string (k div 10) @ [char_of (48 + k mod 10)])"

declare to_string.simps [simp del]

subsection \<open>NumPy arrays as pybind11 sees them\<close>

text \<open>
  Of a \<open>py::array_t<T>\<close> the wrappers read the shape, the contiguity flags and the
  pointer \<open>data()\<close> to the underlying buffer (here the list of the elements stored
  there, in memory order).
\<close>

record 'a py_array =
  shape :: "nat list"
  c_style :: bool
  f_style :: bool
  data :: "'a list"

definition ndim :: "'a py_array \<Rightarrow> nat" where
  "ndim array = length (shape array)"

definition array_size :: "'a py_array \<Rightarrow> nat" where
  "array_size array = prod_list (shape array)"

text \<open>\<open>array.shape(i)\<close> throws \<open>index_error\<close> when \<open>i\<close> is not an axis.\<close>

definition shape_at :: "'a py_array \<Rightarrow> nat \<Rightarrow> error + nat" where
  "shape_at array i =
     (if i < ndim array then Inr (shape array ! i) else Inl Index_error)"

subsection \<open>\<open>check_array\<close>\<close>

text \<open>
  \<^verbatim>\<open>check_array(array, size = 0, dims = 0, storage = 'X')\<close>: the four tests, in the
  order of the source. A \<open>size\<close> or \<open>dims\<close> of \<open>0\<close> switches that test off.
\<close>

definition check_array :: "'a py_array \<Rightarrow> size_t \<Rightarrow> size_t \<Rightarrow> char \<Rightarrow> error + unit" where
  "check_array array sz dims storage =
     (if sz \<noteq> 0 \<and> array_size array \<noteq> unat sz then
        Inl (Invalid_argument (''Expected array of size: '' @ to_string (unat sz)))
      else if dims \<noteq> 0 \<and> ndim array \<noteq> unat dims then
        Inl (Invalid_argument (''Expected an array of dimension: '' @ to_string (unat dims)))
      else if storage = CHR ''F'' \<and> \<not> f_style array then
        Inl (Invalid_argument ''Expected a F_CONTIGUOUS array'')
      else if storage = CHR ''C'' \<and> \<not> c_style array then
        Inl (Invalid_argument ''Expected a C_CONTIGUOUS array'')
      else Inr ())"

subsection \<open>Cloud\<close>

text \<open>
  The state of a \<open>viz::Cloud\<close> that the wrappers read or write. The class itself is
  declared in \<open>ouster/point_viz.h\<close>, which is not part of the sources at hand.
\<close>

record cloud =
  cloud_n :: size_t
  cloud_w :: size_t
  cloud_range :: "32 word list"
  cloud_key :: "real list"
  cloud_mask :: "real list"
  cloud_xyz :: "real list"
  cloud_pose :: "real list"
  cloud_palette :: "real list"
  cloud_direction :: "real list"
  cloud_offset :: "real list"
  cloud_extrinsic :: "real list"

definition get_size :: "cloud \<Rightarrow> size_t" where
  "get_size self = cloud_n self"

text \<open>
  Modelled from the spec: the mutators of \<open>viz::Cloud\<close> (\<open>ouster/point_viz.h\<close> and its
  implementation are missing). The spec says that the buffers of a cloud are
  "mutated in place by setters" and hold \<open>n\<close> ranges, \<open>n\<close> keys, \<open>4n\<close> mask values,
  \<open>3n\<close> coordinates, a 4x4 pose and a palette of RGB triples: each mutator copies
  that many elements from the pointer it is handed.
\<close>

definition viz_Cloud_set_range :: "cloud \<Rightarrow> 32 word list \<Rightarrow> cloud" where
  "viz_Cloud_set_range self p = self\<lparr>cloud_range := take (unat (cloud_n self)) p\<rparr>"

definition viz_Cloud_set_key :: "cloud \<Rightarrow> real list \<Rightarrow> cloud" where
  "viz_Cloud_set_key self p = self\<lparr>cloud_key := take (unat (cloud_n self)) p\<rparr>"

definition viz_Cloud_set_mask :: "cloud \<Rightarrow> real list \<Rightarrow> cloud" where
  "viz_Cloud_set_mask self p = self\<lparr>cloud_mask := take (4 * unat (cloud_n self)) p\<rparr>"

definition viz_Cloud_set_xyz :: "cloud \<Rightarrow> real list \<Rightarrow> cloud" where
  "viz_Cloud_set_xyz self p = self\<lparr>cloud_xyz := take (3 * unat (cloud_n self)) p\<rparr>"

definition viz_Cloud_set_pose :: "cloud \<Rightarrow> real list \<Rightarrow> cloud" where
  "viz_Cloud_set_pose self posea = self\<lparr>cloud_pose := posea\<rparr>"

definition viz_Cloud_set_palette :: "cloud \<Rightarrow> real list \<Rightarrow> nat \<Rightarrow> cloud" where
  "viz_Cloud_set_palette self p k = self\<lparr>cloud_palette := take (3 * k) p\<rparr>"

text \<open>\<^verbatim>\<open>std::copy(pose.data(), pose.data() + 16, posea.data())\<close>\<close>

definition copy16 :: "real list \<Rightarrow> real list" where
  "copy16 p = take 16 p"

text \<open>The wrappers, statement by statement.\<close>

definition Cloud_set_range :: "cloud \<Rightarrow> 32 word py_array \<Rightarrow> (error + unit) \<times> cloud" where
  "Cloud_set_range self rng =
     (case check_array rng (get_size self) 2 CHR ''C'' of
        Inl e \<Rightarrow> (Inl e, self)
      | Inr _ \<Rightarrow> (Inr (), viz_Cloud_set_range self (data rng)))"

definition Cloud_set_key :: "cloud \<Rightarrow> real py_array \<Rightarrow> (error + unit) \<times> cloud" where
  "Cloud_set_key self key =
     (case check_array key (get_size self) 0 CHR ''C'' of
        Inl e \<Rightarrow> (Inl e, self)
      | Inr _ \<Rightarrow> (Inr (), viz_Cloud_set_key self (data key)))"

definition Cloud_set_mask :: "cloud \<Rightarrow> real py_array \<Rightarrow> (error + unit) \<times> cloud" where
  "Cloud_set_mask self msk =
     (case check_array msk (get_size self * 4) 0 CHR ''C'' of
        Inl e \<Rightarrow> (Inl e, self)
      | Inr _ \<Rightarrow>
          if ndim msk \<noteq> 2 \<and> ndim msk \<noteq> 3 then
            (Inl (Invalid_argument ''Expected an array of dimensions: 2 or 3''), self)
          else (Inr (), viz_Cloud_set_mask self (data msk)))"

definition Cloud_set_xyz :: "cloud \<Rightarrow> real py_array \<Rightarrow> (error + unit) \<times> cloud" where
  "Cloud_set_xyz self xyz =
     (case check_array xyz (get_size self * 3) 0 CHR ''X'' of
        Inl e \<Rightarrow> (Inl e, self)
      | Inr _ \<Rightarrow> (Inr (), viz_Cloud_set_xyz self (data xyz)))"

definition Cloud_set_pose :: "cloud \<Rightarrow> real py_array \<Rightarrow> (error + unit) \<times> cloud" where
  "Cloud_set_pose self pose =
     (case check_array pose 16 2 CHR ''F'' of
        Inl e \<Rightarrow> (Inl e, self)
      | Inr _ \<Rightarrow> (Inr (), viz_Cloud_set_pose self (copy16 (data pose))))"

definition Cloud_set_palette :: "cloud \<Rightarrow> real py_array \<Rightarrow> (error + unit) \<times> cloud" where
  "Cloud_set_palette self buf =
     (case check_array buf 0 2 CHR ''C'' of
        Inl e \<Rightarrow> (Inl e, self)
      | Inr _ \<Rightarrow>
          (case shape_at buf 1 of
             Inl e \<Rightarrow> (Inl e, self)
           | Inr s1 \<Rightarrow>
               if s1 \<noteq> 3 then (Inl (Invalid_argument ''Expected a N x 3 array''), self)
               else (case shape_at buf 0 of
                       Inl e \<Rightarrow> (Inl e, self)
                     | Inr s0 \<Rightarrow> (Inr (), viz_Cloud_set_palette self (data buf) s0))))"

text \<open>
  The structured constructor. \<open>make_xyz_lut\<close> (\<open>ouster/lidar_scan.h\<close>) and the
  type \<open>sensor_info\<close> (\<open>ouster/types.h\<close>) are missing: the lookup-table function is
  a parameter, and of the metadata only the fields that the wrapper reads are kept.
\<close>

record xyz_lut =
  lut_direction :: "real list"
  lut_offset :: "real list"

record sensor_info =
  columns_per_frame :: nat
  pixels_per_column :: nat
  extrinsic :: "real list"

text \<open>\<^verbatim>\<open>.cast<float>()\<close> on an Eigen array: element by element.\<close>

definition cast_float_array :: "real list \<Rightarrow> real list" where
  "cast_float_array xs = map (\<lambda>x. x) xs"

text \<open>
  Modelled from the spec: the arguments of the constructor
  \<^verbatim>\<open>viz::Cloud{w, h, dir, off, extrinsic}\<close> (missing), for which the spec gives
  \<open>n = w * h\<close> points in \<open>w\<close> poses with the direction and offset vectors and the
  extrinsic transform kept by the cloud.
\<close>

definition viz_Cloud_structured ::
    "nat \<Rightarrow> nat \<Rightarrow> real list \<Rightarrow> real list \<Rightarrow> real list \<Rightarrow> cloud" where
  "viz_Cloud_structured w h dir off extrinsica =
     \<lparr>cloud_n = of_nat (w * h), cloud_w = of_nat w, cloud_range = [], cloud_key = [],
      cloud_mask = [], cloud_xyz = [], cloud_pose = [], cloud_palette = [],
      cloud_direction = dir, cloud_offset = off, cloud_extrinsic = extrinsica\<rparr>"

definition Cloud_init_structured :: "(sensor_info \<Rightarrow> xyz_lut) \<Rightarrow> sensor_info \<Rightarrow> cloud" where
  "Cloud_init_structured make_xyz_lut info =
     (let xyz_lut = make_xyz_lut info;
          direction = cast_float_array (lut_direction xyz_lut);
          offset = cast_float_array (lut_direction xyz_lut);
          extrinsica = copy16 (extrinsic info)
      in viz_Cloud_structured (columns_per_frame info) (pixels_per_column info)
           direction offset extrinsica)"

subsection \<open>Image\<close>

record image =
  image_width :: nat
  image_height :: nat
  image_data :: "real list"
  mask_width :: nat
  mask_height :: nat
  mask_data :: "real list"

text \<open>
  Modelled from the spec: the mutators of \<open>viz::Image\<close> (missing): an \<open>h x w\<close> scalar
  buffer and an \<open>h x w x 4\<close> RGBA mask, each replaced by the buffer handed over.
\<close>

definition viz_Image_set_image :: "image \<Rightarrow> nat \<Rightarrow> nat \<Rightarrow> real list \<Rightarrow> image" where
  "viz_Image_set_image self width height p =
     self\<lparr>image_width := width, image_height := height, image_data := take (width * height) p\<rparr>"

definition viz_Image_set_mask :: "image \<Rightarrow> nat \<Rightarrow> nat \<Rightarrow> real list \<Rightarrow> image" where
  "viz_Image_set_mask self width height p =
     self\<lparr>mask_width := width, mask_height := height,
          mask_data := take (width * height * 4) p\<rparr>"

definition Image_set_image :: "image \<Rightarrow> real py_array \<Rightarrow> (error + unit) \<times> image" where
  "Image_set_image self img =
     (case check_array img 0 2 CHR ''C'' of
        Inl e \<Rightarrow> (Inl e, self)
      | Inr _ \<Rightarrow>
          (case shape_at img 1 of
             Inl e \<Rightarrow> (Inl e, self)
           | Inr s1 \<Rightarrow>
               (case shape_at img 0 of
                  Inl e \<Rightarrow> (Inl e, self)
                | Inr s0 \<Rightarrow> (Inr (), viz_Image_set_image self s1 s0 (data img)))))"

definition Image_set_mask :: "image \<Rightarrow> real py_array \<Rightarrow> (error + unit) \<times> image" where
  "Image_set_mask self buf =
     (case check_array buf 0 3 CHR ''C'' of
        Inl e \<Rightarrow> (Inl e, self)
      | Inr _ \<Rightarrow>
          (case shape_at buf 2 of
             Inl e \<Rightarrow> (Inl e, self)
           | Inr s2 \<Rightarrow>
               if s2 \<noteq> 4 then (Inl (Invalid_argument ''Expected a M x N x 4 array''), self)
               else (case shape_at buf 1 of
                       Inl e \<Rightarrow> (Inl e, self)
                     | Inr s1 \<Rightarrow>
                         (case shape_at buf 0 of
                            Inl e \<Rightarrow> (Inl e, self)
                          | Inr s0 \<Rightarrow> (Inr (), viz_Image_set_mask self s1 s0 (data buf))))))"

subsection \<open>Colour tuples: \<open>tuple_to_float_array\<close>\<close>

text \<open>
  A value of the C++ type \<open>float\<close> (binary32): a finite number, an infinity or a
  NaN.
\<close>

datatype float32 = Float real | Pos_inf | Neg_inf | Not_a_number

text \<open>
  The numeric conversions behind \<^verbatim>\<open>cast<float>()\<close>. They belong to CPython and to
  the platform, not to the sources at hand, and are parameters of the model:
  \<open>long_as_double\<close> is the conversion of a Python integer to a \<open>double\<close>, with
  \<open>None\<close> when CPython raises \<open>OverflowError\<close>; \<open>narrow\<close> is the conversion of a
  \<open>double\<close> to a \<open>float\<close>, which rounds and may overflow to an infinity.
\<close>

record conversions =
  long_as_double :: "int \<Rightarrow> real option"
  narrow :: "real \<Rightarrow> float32"

text \<open>
  The elements of a \<open>py::tuple\<close> are arbitrary Python objects. \<open>cast_float\<close> is
  \<^verbatim>\<open>tuple[i].cast<float>()\<close>, with \<open>None\<close> for \<open>py::cast_error\<close>: pybind11 takes the
  \<open>double\<close> of a float or of an integer (\<open>bool\<close> being an integer) and narrows it
  to \<open>float\<close>; it refuses an integer too large for a \<open>double\<close>, a string and
  \<open>None\<close>. \<open>Py_float x\<close> is a finite Python float of value \<open>x\<close>.
\<close>

datatype py_object = Py_float real | Py_int int | Py_bool bool | Py_str string | Py_none

fun cast_float :: "conversions \<Rightarrow> py_object \<Rightarrow> float32 option" where
  "cast_float cv (Py_float x) = Some (narrow cv x)"
| "cast_float cv (Py_int k) = map_option (narrow cv) (long_as_double cv k)"
| "cast_float cv (Py_bool b) = Some (narrow cv (if b then 1 else 0))"
| "cast_float cv (Py_str s) = None"
| "cast_float cv Py_none = None"

text \<open>
  The loop \<^verbatim>\<open>for (size_t i = 0; i < tuple.size(); i++) dst[i] = tuple[i].cast<float>();\<close>
  from index \<open>i\<close> on; \<open>None\<close> when a cast throws.
\<close>

function tuple_loop ::
    "conversions \<Rightarrow> nat \<Rightarrow> py_object list \<Rightarrow> float32 list \<Rightarrow> float32 list option" where
  "tuple_loop cv i tuple dst =
     (if i < length tuple then
        (case cast_float cv (tuple ! i) of
           None \<Rightarrow> None
         | Some v \<Rightarrow> tuple_loop cv (i + 1) tuple (dst[i := v]))
      else Some dst)"
  by pat_completeness auto
termination
  by (relation "measure (\<lambda>(cv, i, tuple, dst). length tuple - i)") auto

declare tuple_loop.simps [simp del]

text \<open>The template parameter \<open>N\<close> is the length of \<open>dst\<close>, a \<open>std::array<float, N>\<close>.\<close>

definition tuple_to_float_array ::
    "conversions \<Rightarrow> float32 list \<Rightarrow> py_object list \<Rightarrow> error + float32 list" where
  "tuple_to_float_array cv dst tuple =
     (if length tuple > length dst then
        Inl (Invalid_argument (''Expected a tuple of size <= '' @ to_string (length dst)))
      else (case tuple_loop cv 0 tuple dst of
              None \<Rightarrow> Inl (Type_error ''Expected a tuple of floats'')
            | Some dst' \<Rightarrow> Inr dst'))"

subsection \<open>Cuboid and Label\<close>

record cuboid =
  cuboid_transform :: "real list"
  cuboid_rgba :: "float32 list"

record label =
  label_text :: string
  label_rgba :: "float32 list"

text \<open>
  Modelled from the spec: \<open>viz::Cuboid\<close> and \<open>viz::Label\<close> (missing) keep the pose
  and the RGBA colour they are given.
\<close>

definition viz_Cuboid :: "real list \<Rightarrow> float32 list \<Rightarrow> cuboid" where
  "viz_Cuboid posea ar = \<lparr>cuboid_transform = posea, cuboid_rgba = ar\<rparr>"

definition viz_Cuboid_set_transform :: "cuboid \<Rightarrow> real list \<Rightarrow> cuboid" where
  "viz_Cuboid_set_transform self posea = self\<lparr>cuboid_transform := posea\<rparr>"

definition viz_Cuboid_set_rgba :: "cuboid \<Rightarrow> float32 list \<Rightarrow> cuboid" where
  "viz_Cuboid_set_rgba self ar = self\<lparr>cuboid_rgba := ar\<rparr>"

definition viz_Label_set_rgba :: "label \<Rightarrow> float32 list \<Rightarrow> label" where
  "viz_Label_set_rgba self ar = self\<lparr>label_rgba := ar\<rparr>"

text \<open>\<^verbatim>\<open>viz::vec4f ar{0.0, 0.0, 0.0, 1.0};\<close> (binary32 holds \<open>0\<close> and \<open>1\<close> exactly)\<close>

definition default_rgba :: "float32 list" where
  "default_rgba = [Float 0, Float 0, Float 0, Float 1]"

definition Cuboid_init ::
    "conversions \<Rightarrow> real py_array \<Rightarrow> py_object list \<Rightarrow> error + cuboid" where
  "Cuboid_init cv pose rgba =
     (case check_array pose 16 2 CHR ''F'' of
        Inl e \<Rightarrow> Inl e
      | Inr _ \<Rightarrow>
          (let posea = copy16 (data pose) in
           case tuple_to_float_array cv default_rgba rgba of
             Inl e \<Rightarrow> Inl e
           | Inr ar \<Rightarrow> Inr (viz_Cuboid posea ar)))"

definition Cuboid_set_transform :: "cuboid \<Rightarrow> real py_array \<Rightarrow> (error + unit) \<times> cuboid" where
  "Cuboid_set_transform self pose =
     (case check_array pose 16 2 CHR ''F'' of
        Inl e \<Rightarrow> (Inl e, self)
      | Inr _ \<Rightarrow> (Inr (), viz_Cuboid_set_transform self (copy16 (data pose))))"

definition Cuboid_set_rgba ::
    "conversions \<Rightarrow> cuboid \<Rightarrow> py_object list \<Rightarrow> (error + unit) \<times> cuboid" where
  "Cuboid_set_rgba cv self rgba =
     (case tuple_to_float_array cv default_rgba rgba of
        Inl e \<Rightarrow> (Inl e, self)
      | Inr ar \<Rightarrow> (Inr (), viz_Cuboid_set_rgba self ar))"

definition Label_set_rgba ::
    "conversions \<Rightarrow> label \<Rightarrow> py_object list \<Rightarrow> (error + unit) \<times> label" where
  "Label_set_rgba cv self rgba =
     (case tuple_to_float_array cv default_rgba rgba of
        Inl e \<Rightarrow> (Inl e, self)
      | Inr ar \<Rightarrow> (Inr (), viz_Label_set_rgba self ar))"

subsection \<open>\<open>PointViz.run\<close>\<close>

text \<open>
  Of a \<open>viz::PointViz\<close> the loop reads and writes the running flag and the
  visibility of the window; \<open>frame_count\<close> counts the calls of \<open>run_once\<close> made
  on the object so far.
\<close>

record point_viz =
  running_flag :: bool
  visible_flag :: bool
  frame_count :: nat

text \<open>
  What the rest of the process does while \<open>run\<close> executes.
  \<^item> \<open>flag_write env k\<close> is what happens to the running flag during frame-step
    number \<open>k\<close>: \<open>Some b\<close> when \<open>running(b)\<close> is called while that step executes
    (the last such call, if several), \<open>None\<close> when nobody touches the flag. The
    caller of \<open>running(b)\<close> is another thread, which can run because the loop body
    holds a \<^verbatim>\<open>py::gil_scoped_release\<close> for the whole batch, or the frame-step itself
    when the window is closed.
  \<^item> \<open>check_signals env k\<close> is the value that \<^verbatim>\<open>PyErr_CheckSignals()\<close> returns when it
    is called after \<open>k\<close> frame-steps: \<open>0\<close>, or \<open>-1\<close> with a Python exception set by a
    signal handler.
\<close>

record environment =
  flag_write :: "nat \<Rightarrow> bool option"
  check_signals :: "nat \<Rightarrow> int"

definition running_set :: "point_viz \<Rightarrow> bool \<Rightarrow> point_viz" where
  "running_set self b = self\<lparr>running_flag := b\<rparr>"

definition running_get :: "point_viz \<Rightarrow> bool" where
  "running_get self = running_flag self"

definition visible_set :: "point_viz \<Rightarrow> bool \<Rightarrow> point_viz" where
  "visible_set self b = self\<lparr>visible_flag := b\<rparr>"

text \<open>
  Modelled from the spec: \<open>viz::PointViz::run_once\<close> (missing) "executes exactly one
  frame-step"; of its effects only the count of steps and the writes to the running
  flag that fall into the step are kept.
\<close>

definition run_once :: "environment \<Rightarrow> point_viz \<Rightarrow> point_viz" where
  "run_once env self =
     self\<lparr>running_flag :=
            (case flag_write env (frame_count self) of
               None \<Rightarrow> running_flag self
             | Some b \<Rightarrow> b),
          frame_count := Suc (frame_count self)\<rparr>"

definition PyErr_CheckSignals :: "environment \<Rightarrow> point_viz \<Rightarrow> int" where
  "PyErr_CheckSignals env self = check_signals env (frame_count self)"

definition check_every :: nat where
  "check_every = 10"

text \<open>\<^verbatim>\<open>for (int i = 0; i < check_every; i++) self.run_once();\<close> from \<open>i\<close> on.\<close>

function batch :: "environment \<Rightarrow> nat \<Rightarrow> point_viz \<Rightarrow> point_viz" where
  "batch env i self =
     (if i < check_every then batch env (i + 1) (run_once env self) else self)"
  by pat_completeness auto
termination
  by (relation "measure (\<lambda>(env, i, self). check_every - i)") auto

declare batch.simps [simp del]

text \<open>
  The \<open>while\<close> loop. It need not end, so its value is an option: \<open>None\<close> when the
  loop runs forever, \<open>Some\<close> of the outcome and the visualizer at the exit otherwise.
\<close>

partial_function (option) run_loop ::
    "environment \<Rightarrow> point_viz \<Rightarrow> ((error + unit) \<times> point_viz) option" where
  "run_loop env self =
     (if running_get self then
        (if PyErr_CheckSignals env self \<noteq> 0 then Some (Inl Error_already_set, self)
         else run_loop env (batch env 0 self))
      else Some (Inr (), self))"

declare run_loop.simps [code]

definition run :: "environment \<Rightarrow> point_viz \<Rightarrow> ((error + unit) \<times> point_viz) option" where
  "run env self =
     (let self = running_set self True;
          self = visible_set self True
      in case run_loop env self of
           None \<Rightarrow> None
         | Some (Inl e, self') \<Rightarrow> Some (Inl e, self')
         | Some (Inr _, self') \<Rightarrow> Some (Inr (), visible_set self' False))"

text \<open>
  The visualizer as the \<open>while\<close> condition of \<open>run\<close> finds it at its evaluation
  number \<open>j\<close> (counted from \<open>0\<close>), if the loop gets that far: after the two calls at
  entry and \<open>j\<close> whole batches.
\<close>

primrec loop_head :: "environment \<Rightarrow> point_viz \<Rightarrow> nat \<Rightarrow> point_viz" where
  "loop_head env self 0 = visible_set (running_set self True) True"
| "loop_head env self (Suc j) = batch env 0 (loop_head env self j)"

subsection \<open>Values for the examples\<close>

text \<open>
  What NumPy hands over for a freshly made array of a given shape in row-major
  (\<open>c_array\<close>) or column-major (\<open>f_array\<close>) order: an array with at most one axis
  longer than \<open>1\<close> carries both flags.
\<close>

definition c_array :: "nat list \<Rightarrow> 'a list \<Rightarrow> 'a py_array" where
  "c_array sh d =
     \<lparr>shape = sh, c_style = True, f_style = (length (filter (\<lambda>k. k \<noteq> 1) sh) \<le> 1), data = d\<rparr>"

definition f_array :: "nat list \<Rightarrow> 'a list \<Rightarrow> 'a py_array" where
  "f_array sh d =
     \<lparr>shape = sh, c_style = (length (filter (\<lambda>k. k \<noteq> 1) sh) \<le> 1), f_style = True, data = d\<rparr>"

text \<open>An unstructured cloud of \<open>k\<close> points, as \<^verbatim>\<open>viz::Cloud{n}\<close> leaves it (\<open>w = n\<close>).\<close>

definition new_cloud :: "size_t \<Rightarrow> cloud" where
  "new_cloud k =
     \<lparr>cloud_n = k, cloud_w = k, cloud_range = [], cloud_key = [], cloud_mask = [],
      cloud_xyz = [], cloud_pose = [], cloud_palette = [], cloud_direction = [],
      cloud_offset = [], cloud_extrinsic = []\<rparr>"


definition identity_pose :: "real list" where
  "identity_pose = [1, 0, 0, 0,  0, 1, 0, 0,  0, 0, 1, 0,  0, 0, 0, 1]"

definition red_cuboid :: cuboid where
  "red_cuboid =
     \<lparr>cuboid_transform = identity_pose, cuboid_rgba = [Float 1, Float 0, Float 0, Float 1]\<rparr>"


lemmas eval_defs = Cloud_set_range_def Cloud_set_key_def Cloud_set_mask_def Cloud_set_xyz_def
  Cloud_set_pose_def Cloud_set_palette_def Image_set_image_def Image_set_mask_def
  Cuboid_set_transform_def check_array_def shape_at_def ndim_def array_size_def
  c_array_def f_array_def new_cloud_def get_size_def

definition hello_label :: label where
  "hello_label =
     \<lparr>label_text = ''hello'', label_rgba = [Float 1, Float 1, Float 1, Float 1]\<rparr>"

text \<open>
  Conversions for the examples: the exact ones. The platform's conversions agree
  with them on every number that binary32 holds exactly, such as the integers \<open>0\<close>
  and \<open>1\<close> that the examples use.
\<close>

definition exact_conv :: conversions where
  "exact_conv = \<lparr>long_as_double = (\<lambda>k. Some (of_int k)), narrow = Float\<rparr>"

lemmas rgba_eval_defs = Cuboid_set_rgba_def Label_set_rgba_def Cuboid_init_def
  tuple_to_float_array_def default_rgba_def viz_Cuboid_set_rgba_def viz_Label_set_rgba_def
  viz_Cuboid_def red_cuboid_def hello_label_def identity_pose_def copy16_def exact_conv_def

text \<open>
  A visualizer that has not run yet; a process in which one other thread calls
  \<open>running(false)\<close> during frame-step \<open>p\<close> and no signal arrives; and a process in
  which nobody touches the flag and a signal handler has raised by the time \<open>q\<close>
  frame-steps are done.
\<close>

definition fresh_viz :: point_viz where
  "fresh_viz = \<lparr>running_flag = False, visible_flag = False, frame_count = 0\<rparr>"

definition stop_env :: "nat \<Rightarrow> environment" where
  "stop_env p =
     \<lparr>flag_write = (\<lambda>k. if k = p then Some False else None), check_signals = (\<lambda>k. 0)\<rparr>"

text \<open>A process in which the listed calls \<open>running(b)\<close> fall into the listed steps.\<close>

definition script_env :: "(nat \<times> bool) list \<Rightarrow> environment" where
  "script_env ws = \<lparr>flag_write = map_of ws, check_signals = (\<lambda>k. 0)\<rparr>"

definition signal_env :: "nat \<Rightarrow> environment" where
  "signal_env q =
     \<lparr>flag_write = (\<lambda>k. None), check_signals = (\<lambda>k. if q \<le> k then - 1 else 0)\<rparr>"

text \<open>
  Metadata of a sensor with a single pixel, and a lookup table for it whose offset
  component differs from its direction component.
\<close>

definition example_info :: sensor_info where
  "example_info = \<lparr>columns_per_frame = 1, pixels_per_column = 1, extrinsic = identity_pose\<rparr>"

definition example_lut :: xyz_lut where
  "example_lut = \<lparr>lut_direction = [1, 0, 0], lut_offset = [0, 0, 3]\<rparr>"

section \<open>Properties\<close>

subsection \<open>\<open>check_array\<close> and the shape of an array\<close>

lemma check_array_cases:
  "check_array a sz d st = Inr () \<or> (\<exists>msg. check_array a sz d st = Inl (Invalid_argument msg))"
  by (simp add: check_array_def)

lemma check_array_Inr_iff:
  "check_array a sz d st = Inr () \<longleftrightarrow>
     (sz = 0 \<or> array_size a = unat sz) \<and> (d = 0 \<or> ndim a = unat d) \<and>
     (st = CHR ''F'' \<longrightarrow> f_style a) \<and> (st = CHR ''C'' \<longrightarrow> c_style a)"
  by (simp add: check_array_def)

lemma ndim_2_shape: "ndim a = 2 \<longleftrightarrow> (\<exists>x y. shape a = [x, y])"
  by (auto simp: ndim_def length_Suc_conv numeral_2_eq_2)

subsection \<open>The palette of a cloud\<close>

lemma Cloud_set_palette_failure:
  "fst (Cloud_set_palette self a) \<noteq> Inr () \<Longrightarrow>
     (\<exists>msg. fst (Cloud_set_palette self a) = Inl (Invalid_argument msg)) \<and>
     snd (Cloud_set_palette self a) = self"
  using check_array_cases [of a 0 2 "CHR ''C''"] check_array_Inr_iff [of a 0 2 "CHR ''C''"]
  by (auto simp: Cloud_set_palette_def shape_at_def split: sum.splits)

lemma Cloud_set_palette_ok_iff:
  "fst (Cloud_set_palette self buf) = Inr () \<longleftrightarrow> (\<exists>N. shape buf = [N, 3]) \<and> c_style buf"
proof (cases "ndim buf = 2")
  case True
  then obtain x y where sh: "shape buf = [x, y]"
    by (auto simp: ndim_2_shape)
  with True show ?thesis
    by (simp add: Cloud_set_palette_def shape_at_def check_array_def)
next
  case False
  then have "\<not> (\<exists>N. shape buf = [N, 3])"
    by (auto simp: ndim_def)
  with False show ?thesis
    by (simp add: Cloud_set_palette_def check_array_def)
qed

text \<open>
  C7. \<open>Cloud.set_palette\<close> accepts a buffer only when it is a two-dimensional table
  whose second dimension is 3, that is an \<open>N x 3\<close> table for some \<open>N\<close> (and, as the
  wrapper also asks, stored row-major); an array of any other dimensionality, or with
  another second dimension, fails with an invalid-argument error and the cloud is
  left as it was.
\<close>

theorem Cloud_set_palette_N_by_3:
  "(fst (Cloud_set_palette self buf) = Inr () \<longleftrightarrow> (\<exists>N. shape buf = [N, 3]) \<and> c_style buf) \<and>
   (ndim buf \<noteq> 2 \<or> shape buf ! 1 \<noteq> 3 \<longrightarrow>
      (\<exists>msg. fst (Cloud_set_palette self buf) = Inl (Invalid_argument msg)) \<and>
      snd (Cloud_set_palette self buf) = self)"
proof (intro conjI impI)
  show "fst (Cloud_set_palette self buf) = Inr () \<longleftrightarrow> (\<exists>N. shape buf = [N, 3]) \<and> c_style buf"
    by (rule Cloud_set_palette_ok_iff)
next
  assume bad: "ndim buf \<noteq> 2 \<or> shape buf ! 1 \<noteq> 3"
  then have "\<not> (\<exists>N. shape buf = [N, 3])"
    by (auto simp: ndim_def)
  then have "fst (Cloud_set_palette self buf) \<noteq> Inr ()"
    by (simp add: Cloud_set_palette_ok_iff)
  then show "\<exists>msg. fst (Cloud_set_palette self buf) = Inl (Invalid_argument msg)"
    and "snd (Cloud_set_palette self buf) = self"
    by (simp_all add: Cloud_set_palette_failure)
qed

theorem Cloud_set_palette_N_by_3_witness:
  "shape (c_array [3, 2] [1, 0, 0, 1, 0, 0 :: real]) ! 1 \<noteq> 3 \<and>
   (\<exists>msg. fst (Cloud_set_palette (new_cloud 4) (c_array [3, 2] [1, 0, 0, 1, 0, 0]))
            = Inl (Invalid_argument msg)) \<and>
   snd (Cloud_set_palette (new_cloud 4) (c_array [3, 2] [1, 0, 0, 1, 0, 0])) = new_cloud 4 \<and>
   fst (Cloud_set_palette (new_cloud 4) (c_array [2, 3] [1, 0, 0, 0, 1, 0])) = Inr ()"
  using Cloud_set_palette_N_by_3 [of "new_cloud 4" "c_array [3, 2] [1, 0, 0, 1, 0, 0]"]
    Cloud_set_palette_N_by_3 [of "new_cloud 4" "c_array [2, 3] [1, 0, 0, 0, 1, 0]"]
  by (simp add: c_array_def)

subsection \<open>Every buffer setter validates before it mutates\<close>

lemma Cloud_set_range_failure:
  "fst (Cloud_set_range self a) \<noteq> Inr () \<Longrightarrow>
     (\<exists>msg. fst (Cloud_set_range self a) = Inl (Invalid_argument msg)) \<and>
     snd (Cloud_set_range self a) = self"
  using check_array_cases [of a "get_size self" 2 "CHR ''C''"]
  by (auto simp: Cloud_set_range_def)

lemma Cloud_set_key_failure:
  "fst (Cloud_set_key self a) \<noteq> Inr () \<Longrightarrow>
     (\<exists>msg. fst (Cloud_set_key self a) = Inl (Invalid_argument msg)) \<and>
     snd (Cloud_set_key self a) = self"
  using check_array_cases [of a "get_size self" 0 "CHR ''C''"]
  by (auto simp: Cloud_set_key_def)

lemma Cloud_set_mask_failure:
  "fst (Cloud_set_mask self a) \<noteq> Inr () \<Longrightarrow>
     (\<exists>msg. fst (Cloud_set_mask self a) = Inl (Invalid_argument msg)) \<and>
     snd (Cloud_set_mask self a) = self"
  using check_array_cases [of a "get_size self * 4" 0 "CHR ''C''"]
  by (auto simp: Cloud_set_mask_def)

lemma Cloud_set_xyz_failure:
  "fst (Cloud_set_xyz self a) \<noteq> Inr () \<Longrightarrow>
     (\<exists>msg. fst (Cloud_set_xyz self a) = Inl (Invalid_argument msg)) \<and>
     snd (Cloud_set_xyz self a) = self"
  using check_array_cases [of a "get_size self * 3" 0 "CHR ''X''"]
  by (auto simp: Cloud_set_xyz_def)





lemma Cloud_set_range_ok_iff:
  "fst (Cloud_set_range self a) = Inr () \<longleftrightarrow>
     (get_size self = 0 \<or> array_size a = unat (get_size self)) \<and> ndim a = 2 \<and> c_style a"
  using check_array_cases [of a "get_size self" 2 "CHR ''C''"]
    check_array_Inr_iff [of a "get_size self" 2 "CHR ''C''"]
  by (auto simp: Cloud_set_range_def)

lemma Cloud_set_key_ok_iff:
  "fst (Cloud_set_key self a) = Inr () \<longleftrightarrow>
     (get_size self = 0 \<or> array_size a = unat (get_size self)) \<and> c_style a"
  using check_array_cases [of a "get_size self" 0 "CHR ''C''"]
    check_array_Inr_iff [of a "get_size self" 0 "CHR ''C''"]
  by (auto simp: Cloud_set_key_def)

lemma Cloud_set_mask_ok_iff:
  "fst (Cloud_set_mask self a) = Inr () \<longleftrightarrow>
     (get_size self * 4 = 0 \<or> array_size a = unat (get_size self * 4)) \<and> c_style a \<and>
     (ndim a = 2 \<or> ndim a = 3)"
  using check_array_cases [of a "get_size self * 4" 0 "CHR ''C''"]
    check_array_Inr_iff [of a "get_size self * 4" 0 "CHR ''C''"]
  by (auto simp: Cloud_set_mask_def)

lemma Cloud_set_xyz_ok_iff:
  "fst (Cloud_set_xyz self a) = Inr () \<longleftrightarrow>
     (get_size self * 3 = 0 \<or> array_size a = unat (get_size self * 3))"
  using check_array_cases [of a "get_size self * 3" 0 "CHR ''X''"]
    check_array_Inr_iff [of a "get_size self * 3" 0 "CHR ''X''"]
  by (auto simp: Cloud_set_xyz_def)









subsection \<open>Element counts of the per-point buffers\<close>

lemma unat_times4: "unat (k :: size_t) < 2 ^ 62 \<Longrightarrow> unat (k * 4) = 4 * unat k"
  by (simp add: unat_word_ariths)

lemma unat_times3: "unat (k :: size_t) < 2 ^ 62 \<Longrightarrow> unat (k * 3) = 3 * unat k"
  by (simp add: unat_word_ariths)

lemma times4_nonzero: "k \<noteq> 0 \<Longrightarrow> unat (k :: size_t) < 2 ^ 62 \<Longrightarrow> k * 4 \<noteq> 0"
  using unat_times4 [of k] by (metis mult_is_0 unat_eq_0 zero_neq_numeral)

lemma times3_nonzero: "k \<noteq> 0 \<Longrightarrow> unat (k :: size_t) < 2 ^ 62 \<Longrightarrow> k * 3 \<noteq> 0"
  using unat_times3 [of k] by (metis mult_is_0 unat_eq_0 zero_neq_numeral)

text \<open>
  C3, as the code has it. For a cloud of \<open>n\<close> points with \<open>0 < n < 2\<^sup>6\<^sup>2\<close> (so that
  \<open>4n\<close> and \<open>3n\<close> do not wrap in \<open>size_t\<close>), \<open>set_range\<close> and \<open>set_key\<close> reject every
  buffer whose element count is not exactly \<open>n\<close>, \<open>set_mask\<close> every buffer whose
  count is not exactly \<open>4n\<close>, and \<open>set_xyz\<close> every buffer whose count is not exactly
  \<open>3n\<close>; the rejection is an invalid-argument error.
\<close>

theorem Cloud_setters_element_count:
  assumes "get_size self \<noteq> 0" and "unat (get_size self) < 2 ^ 62"
  shows
  "(array_size r \<noteq> unat (get_size self) \<longrightarrow>
      fst (Cloud_set_range self r) \<noteq> Inr () \<and>
      (\<exists>msg. fst (Cloud_set_range self r) = Inl (Invalid_argument msg))) \<and>
   (array_size k \<noteq> unat (get_size self) \<longrightarrow>
      fst (Cloud_set_key self k) \<noteq> Inr () \<and>
      (\<exists>msg. fst (Cloud_set_key self k) = Inl (Invalid_argument msg))) \<and>
   (array_size m \<noteq> 4 * unat (get_size self) \<longrightarrow>
      fst (Cloud_set_mask self m) \<noteq> Inr () \<and>
      (\<exists>msg. fst (Cloud_set_mask self m) = Inl (Invalid_argument msg))) \<and>
   (array_size x \<noteq> 3 * unat (get_size self) \<longrightarrow>
      fst (Cloud_set_xyz self x) \<noteq> Inr () \<and>
      (\<exists>msg. fst (Cloud_set_xyz self x) = Inl (Invalid_argument msg)))"
proof -
  note nz4 = times4_nonzero [OF assms] and nz3 = times3_nonzero [OF assms]
    and u4 = unat_times4 [OF assms(2)] and u3 = unat_times3 [OF assms(2)]
  have "array_size r \<noteq> unat (get_size self) \<Longrightarrow> fst (Cloud_set_range self r) \<noteq> Inr ()"
    using assms(1) by (simp add: Cloud_set_range_ok_iff)
  moreover have "array_size k \<noteq> unat (get_size self) \<Longrightarrow> fst (Cloud_set_key self k) \<noteq> Inr ()"
    using assms(1) by (simp add: Cloud_set_key_ok_iff)
  moreover have "array_size m \<noteq> 4 * unat (get_size self) \<Longrightarrow> fst (Cloud_set_mask self m) \<noteq> Inr ()"
    using nz4 u4 by (simp add: Cloud_set_mask_ok_iff)
  moreover have "array_size x \<noteq> 3 * unat (get_size self) \<Longrightarrow> fst (Cloud_set_xyz self x) \<noteq> Inr ()"
    using nz3 u3 by (simp add: Cloud_set_xyz_ok_iff)
  ultimately show ?thesis
    using Cloud_set_range_failure [of self r] Cloud_set_key_failure [of self k]
      Cloud_set_mask_failure [of self m] Cloud_set_xyz_failure [of self x]
    by blast
qed

theorem Cloud_setters_element_count_witness:
  "get_size (new_cloud 2) \<noteq> 0 \<and> unat (get_size (new_cloud 2)) < 2 ^ 62 \<and>
   array_size (c_array [1, 3] [1, 2, 3 :: 32 word]) \<noteq> unat (get_size (new_cloud 2)) \<and>
   (\<exists>msg. fst (Cloud_set_range (new_cloud 2) (c_array [1, 3] [1, 2, 3])) = Inl (Invalid_argument msg)) \<and>
   array_size (c_array [3] [1, 2, 3 :: real]) \<noteq> unat (get_size (new_cloud 2)) \<and>
   (\<exists>msg. fst (Cloud_set_key (new_cloud 2) (c_array [3] [1, 2, 3])) = Inl (Invalid_argument msg)) \<and>
   array_size (c_array [2, 1] [1, 1 :: real]) \<noteq> 4 * unat (get_size (new_cloud 2)) \<and>
   (\<exists>msg. fst (Cloud_set_mask (new_cloud 2) (c_array [2, 1] [1, 1])) = Inl (Invalid_argument msg)) \<and>
   array_size (c_array [2] [1, 1 :: real]) \<noteq> 3 * unat (get_size (new_cloud 2)) \<and>
   (\<exists>msg. fst (Cloud_set_xyz (new_cloud 2) (c_array [2] [1, 1])) = Inl (Invalid_argument msg))"
proof -
  have h: "get_size (new_cloud 2) \<noteq> 0" "unat (get_size (new_cloud 2)) < 2 ^ 62"
    "array_size (c_array [1, 3] [1, 2, 3 :: 32 word]) \<noteq> unat (get_size (new_cloud 2))"
    "array_size (c_array [3] [1, 2, 3 :: real]) \<noteq> unat (get_size (new_cloud 2))"
    "array_size (c_array [2, 1] [1, 1 :: real]) \<noteq> 4 * unat (get_size (new_cloud 2))"
    "array_size (c_array [2] [1, 1 :: real]) \<noteq> 3 * unat (get_size (new_cloud 2))"
    by (simp_all add: eval_defs)
  show ?thesis
    using h Cloud_setters_element_count [OF h(1,2), of "c_array [1, 3] [1, 2, 3]"
        "c_array [3] [1, 2, 3]" "c_array [2, 1] [1, 1]" "c_array [2] [1, 1]"]
    by blast
qed

text \<open>
  The claim C3 as worded asks \<open>set_xyz\<close> for exactly \<open>n\<close> elements. On a cloud of
  2 points \<open>set_xyz\<close> accepts a buffer of 6 elements and rejects one of 2.
\<close>

theorem Cloud_set_xyz_count_counterexample:
  "fst (Cloud_set_xyz (new_cloud 2) (c_array [6] [0, 0, 0, 1, 1, 1])) = Inr () \<and>
   array_size (c_array [6] [0, 0, 0, 1, 1, 1 :: real]) \<noteq> unat (get_size (new_cloud 2)) \<and>
   array_size (c_array [2] [0, 1 :: real]) = unat (get_size (new_cloud 2)) \<and>
   (\<exists>msg. fst (Cloud_set_xyz (new_cloud 2) (c_array [2] [0, 1])) = Inl (Invalid_argument msg))"
  by (simp add: eval_defs)

subsection \<open>The range buffer\<close>

text \<open>
  C10, as the code has it. For a cloud of \<open>n > 0\<close> points \<open>set_range\<close> accepts
  exactly the arrays that are 2-dimensional, C-contiguous and of \<open>n\<close> elements. For
  every cloud, structured or not, an accepted array is 2-dimensional and
  C-contiguous, and an array that is not 2-dimensional (a 1-dimensional array of
  exactly \<open>n\<close> range values, say) is rejected with an invalid-argument error, the
  cloud being left as it was.
\<close>

theorem Cloud_set_range_two_dimensional:
  "(get_size self \<noteq> 0 \<longrightarrow>
      (fst (Cloud_set_range self rng) = Inr () \<longleftrightarrow>
         ndim rng = 2 \<and> c_style rng \<and> array_size rng = unat (get_size self))) \<and>
   (fst (Cloud_set_range self rng) = Inr () \<longrightarrow> ndim rng = 2 \<and> c_style rng) \<and>
   (ndim rng \<noteq> 2 \<longrightarrow>
      (\<exists>msg. fst (Cloud_set_range self rng) = Inl (Invalid_argument msg)) \<and>
      snd (Cloud_set_range self rng) = self)"
  using Cloud_set_range_failure [of self rng]
  by (auto simp: Cloud_set_range_ok_iff)

theorem Cloud_set_range_two_dimensional_witness:
  "get_size (new_cloud 4) \<noteq> 0 \<and>
   ndim (c_array [4] [10, 20, 30, 40 :: 32 word]) \<noteq> 2 \<and>
   array_size (c_array [4] [10, 20, 30, 40 :: 32 word]) = unat (get_size (new_cloud 4)) \<and>
   (\<exists>msg. fst (Cloud_set_range (new_cloud 4) (c_array [4] [10, 20, 30, 40]))
      = Inl (Invalid_argument msg)) \<and>
   snd (Cloud_set_range (new_cloud 4) (c_array [4] [10, 20, 30, 40])) = new_cloud 4 \<and>
   fst (Cloud_set_range (new_cloud 4) (c_array [2, 2] [10, 20, 30, 40])) = Inr () \<and>
   ndim (c_array [2, 2] [10, 20, 30, 40 :: 32 word]) = 2"
proof -
  have h: "get_size (new_cloud 4) \<noteq> 0"
    "ndim (c_array [4] [10, 20, 30, 40 :: 32 word]) \<noteq> 2"
    "array_size (c_array [4] [10, 20, 30, 40 :: 32 word]) = unat (get_size (new_cloud 4))"
    "ndim (c_array [2, 2] [10, 20, 30, 40 :: 32 word]) = 2"
    "c_style (c_array [2, 2] [10, 20, 30, 40 :: 32 word])"
    "array_size (c_array [2, 2] [10, 20, 30, 40 :: 32 word]) = unat (get_size (new_cloud 4))"
    by (simp_all add: eval_defs)
  show ?thesis
    using h Cloud_set_range_two_dimensional [of "new_cloud 4" "c_array [4] [10, 20, 30, 40]"]
      Cloud_set_range_two_dimensional [of "new_cloud 4" "c_array [2, 2] [10, 20, 30, 40]"]
    by blast
qed

text \<open>
  The claim C10 as worded covers the cloud of \<open>0\<close> points, where \<open>check_array\<close> gets
  the size \<open>0\<close> and skips the test of the element count: a 1 x 1 array is accepted.
\<close>

theorem Cloud_set_range_empty_cloud_counterexample:
  "fst (Cloud_set_range (new_cloud 0) (c_array [1, 1] [7])) = Inr () \<and>
   array_size (c_array [1, 1] [7 :: 32 word]) \<noteq> unat (get_size (new_cloud 0))"
  by (simp add: eval_defs)

subsection \<open>Colour tuples\<close>

lemma to_string_4: "to_string 4 = ''4''"
  by code_simp

lemma tuple_loop_None_iff:
  "tuple_loop cv i t dst = None \<longleftrightarrow>
     (\<exists>j. i \<le> j \<and> j < length t \<and> cast_float cv (t ! j) = None)"
proof (induction cv i t dst rule: tuple_loop.induct)
  case (1 cv i t dst)
  show ?case
  proof (cases "i < length t")
    case False
    then show ?thesis
      by (simp add: tuple_loop.simps [of cv i t dst])
  next
    case True
    show ?thesis
    proof (cases "cast_float cv (t ! i)")
      case None
      with True show ?thesis
        by (auto simp: tuple_loop.simps [of cv i t dst])
    next
      case (Some v)
      have "tuple_loop cv i t dst = tuple_loop cv (i + 1) t (dst[i := v])"
        using True Some by (simp add: tuple_loop.simps [of cv i t dst])
      also have "\<dots> = None \<longleftrightarrow>
          (\<exists>j. i + 1 \<le> j \<and> j < length t \<and> cast_float cv (t ! j) = None)"
        using "1.IH" [OF True Some] .
      also have "\<dots> \<longleftrightarrow> (\<exists>j. i \<le> j \<and> j < length t \<and> cast_float cv (t ! j) = None)"
        using Some by (metis Suc_eq_plus1 Suc_leI le_eq_less_or_eq option.distinct(1) Suc_leD)
      finally show ?thesis .
    qed
  qed
qed

lemma tuple_loop_Some:
  "i \<le> length t \<Longrightarrow> length t \<le> length dst \<Longrightarrow>
   \<forall>j. i \<le> j \<and> j < length t \<longrightarrow> cast_float cv (t ! j) \<noteq> None \<Longrightarrow>
   tuple_loop cv i t dst =
     Some (take i dst @ map (the \<circ> cast_float cv) (drop i t) @ drop (length t) dst)"
proof (induction cv i t dst rule: tuple_loop.induct)
  case (1 cv i t dst)
  show ?case
  proof (cases "i < length t")
    case False
    have "tuple_loop cv i t dst = Some dst"
      using False by (simp add: tuple_loop.simps [of cv i t dst])
    moreover from False "1.prems" have "i = length t" by simp
    ultimately show ?thesis
      using "1.prems"(2) by simp
  next
    case True
    then obtain v where v: "cast_float cv (t ! i) = Some v"
      using "1.prems"(3) by auto
    have len: "i < length dst"
      using True "1.prems"(2) by simp
    have step: "tuple_loop cv i t dst = tuple_loop cv (i + 1) t (dst[i := v])"
      using True v by (simp add: tuple_loop.simps [of cv i t dst])
    have rec: "tuple_loop cv (i + 1) t (dst[i := v]) =
        Some (take (i + 1) (dst[i := v]) @ map (the \<circ> cast_float cv) (drop (i + 1) t)
                @ drop (length t) (dst[i := v]))"
      using "1.IH" [OF True v] True "1.prems" by simp
    have front: "take (i + 1) (dst[i := v]) = take i dst @ [v]"
      using len by (simp add: take_Suc_conv_app_nth)
    have rear: "drop (length t) (dst[i := v]) = drop (length t) dst"
      using True by simp
    have mid: "map (the \<circ> cast_float cv) (drop i t)
        = v # map (the \<circ> cast_float cv) (drop (i + 1) t)"
      using True v by (simp add: Cons_nth_drop_Suc [symmetric])
    show ?thesis
      by (simp only: step rec front rear mid) simp
  qed
qed

lemma tuple_to_float_array_too_long:
  "length t > length dst \<Longrightarrow>
   tuple_to_float_array cv dst t =
     Inl (Invalid_argument (''Expected a tuple of size <= '' @ to_string (length dst)))"
  by (simp add: tuple_to_float_array_def)

lemma tuple_to_float_array_bad_element:
  "length t \<le> length dst \<Longrightarrow> \<exists>x\<in>set t. cast_float cv x = None \<Longrightarrow>
   tuple_to_float_array cv dst t = Inl (Type_error ''Expected a tuple of floats'')"
proof -
  assume len: "length t \<le> length dst" and bad: "\<exists>x\<in>set t. cast_float cv x = None"
  from bad obtain j where "j < length t" "cast_float cv (t ! j) = None"
    by (auto simp: in_set_conv_nth)
  then have "tuple_loop cv 0 t dst = None"
    by (auto simp: tuple_loop_None_iff)
  with len show ?thesis
    by (simp add: tuple_to_float_array_def)
qed

lemma tuple_to_float_array_ok:
  "length t \<le> length dst \<Longrightarrow> \<forall>x\<in>set t. cast_float cv x \<noteq> None \<Longrightarrow>
   tuple_to_float_array cv dst t = Inr (map (the \<circ> cast_float cv) t @ drop (length t) dst)"
proof -
  assume len: "length t \<le> length dst" and ok: "\<forall>x\<in>set t. cast_float cv x \<noteq> None"
  have "tuple_loop cv 0 t dst
      = Some (take 0 dst @ map (the \<circ> cast_float cv) (drop 0 t) @ drop (length t) dst)"
    using len ok by (intro tuple_loop_Some) auto
  with len show ?thesis
    by (simp add: tuple_to_float_array_def)
qed

lemma tuple_to_float_array_error:
  "\<exists>x\<in>set t. cast_float cv x = None \<Longrightarrow> \<exists>e. tuple_to_float_array cv dst t = Inl e"
  using tuple_to_float_array_bad_element [of t dst cv]
    tuple_to_float_array_too_long [of dst t cv]
  by (cases "length t \<le> length dst") auto

lemma length_default_rgba: "length default_rgba = 4"
  by (simp add: default_rgba_def)

lemma rgba_too_long:
  "4 < length rgba \<Longrightarrow>
   tuple_to_float_array cv default_rgba rgba
     = Inl (Invalid_argument ''Expected a tuple of size <= 4'')"
  by (simp add: tuple_to_float_array_too_long length_default_rgba to_string_4)

text \<open>
  C6, as the code has it. \<open>Cuboid.set_rgba\<close> on a tuple of more than 4 elements
  fails with an invalid-argument error and leaves the colour as it was, and the
  construction of a cuboid with such a tuple fails too. On a tuple of fewer than 4
  elements, each of them convertible to \<open>float\<close>, \<open>set_rgba\<close> succeeds, and so does
  the construction when the pose passes its check: the colour is the tuple's
  elements, each as \<^verbatim>\<open>cast<float>()\<close> converts it, followed by the remaining components
  of the default \<open>(0, 0, 0, 1)\<close>. A 3-tuple gives alpha \<open>1\<close>. This holds whatever the
  numeric conversions of the platform are.
\<close>

theorem rgba_tuple_length:
  "(length rgba > 4 \<longrightarrow>
      Cuboid_set_rgba cv self rgba
        = (Inl (Invalid_argument ''Expected a tuple of size <= 4''), self) \<and>
      (\<exists>msg. Cuboid_init cv pose rgba = Inl (Invalid_argument msg))) \<and>
   (length rgba < 4 \<and> (\<forall>x\<in>set rgba. cast_float cv x \<noteq> None) \<longrightarrow>
      Cuboid_set_rgba cv self rgba
        = (Inr (), self\<lparr>cuboid_rgba :=
             map (the \<circ> cast_float cv) rgba
               @ drop (length rgba) [Float 0, Float 0, Float 0, Float 1]\<rparr>) \<and>
      drop (length rgba) (cuboid_rgba (snd (Cuboid_set_rgba cv self rgba)))
        = drop (length rgba) [Float 0, Float 0, Float 0, Float 1] \<and>
      (check_array pose 16 2 CHR ''F'' = Inr () \<longrightarrow>
         Cuboid_init cv pose rgba
           = Inr \<lparr>cuboid_transform = copy16 (data pose),
                  cuboid_rgba = map (the \<circ> cast_float cv) rgba
                    @ drop (length rgba) [Float 0, Float 0, Float 0, Float 1]\<rparr>)) \<and>
   (length rgba = 3 \<and> (\<forall>x\<in>set rgba. cast_float cv x \<noteq> None) \<longrightarrow>
      cuboid_rgba (snd (Cuboid_set_rgba cv self rgba)) ! 3 = Float 1)"
proof (intro conjI impI)
  assume long: "4 < length rgba"
  then have t: "tuple_to_float_array cv default_rgba rgba
      = Inl (Invalid_argument ''Expected a tuple of size <= 4'')"
    by (rule rgba_too_long)
  show "Cuboid_set_rgba cv self rgba
      = (Inl (Invalid_argument ''Expected a tuple of size <= 4''), self)"
    by (simp add: Cuboid_set_rgba_def t)
  show "\<exists>msg. Cuboid_init cv pose rgba = Inl (Invalid_argument msg)"
    using check_array_cases [of pose 16 2 "CHR ''F''"]
    by (auto simp: Cuboid_init_def t)
next
  assume "length rgba < 4 \<and> (\<forall>x\<in>set rgba. cast_float cv x \<noteq> None)"
  then have t: "tuple_to_float_array cv default_rgba rgba
      = Inr (map (the \<circ> cast_float cv) rgba @ drop (length rgba) default_rgba)"
    by (intro tuple_to_float_array_ok) (simp_all add: length_default_rgba)
  show set: "Cuboid_set_rgba cv self rgba
        = (Inr (), self\<lparr>cuboid_rgba :=
             map (the \<circ> cast_float cv) rgba
               @ drop (length rgba) [Float 0, Float 0, Float 0, Float 1]\<rparr>)"
    by (simp add: Cuboid_set_rgba_def t viz_Cuboid_set_rgba_def) (simp add: default_rgba_def)
  show "drop (length rgba) (cuboid_rgba (snd (Cuboid_set_rgba cv self rgba)))
        = drop (length rgba) [Float 0, Float 0, Float 0, Float 1]"
    by (simp add: set)
  assume "check_array pose 16 2 CHR ''F'' = Inr ()"
  then show "Cuboid_init cv pose rgba
           = Inr \<lparr>cuboid_transform = copy16 (data pose),
                  cuboid_rgba = map (the \<circ> cast_float cv) rgba
                    @ drop (length rgba) [Float 0, Float 0, Float 0, Float 1]\<rparr>"
    by (simp add: Cuboid_init_def t viz_Cuboid_def) (simp add: default_rgba_def)
next
  assume a: "length rgba = 3 \<and> (\<forall>x\<in>set rgba. cast_float cv x \<noteq> None)"
  then have t: "tuple_to_float_array cv default_rgba rgba
      = Inr (map (the \<circ> cast_float cv) rgba @ drop (length rgba) default_rgba)"
    by (intro tuple_to_float_array_ok) (simp_all add: length_default_rgba)
  show "cuboid_rgba (snd (Cuboid_set_rgba cv self rgba)) ! 3 = Float 1"
    using a by (simp add: Cuboid_set_rgba_def t viz_Cuboid_set_rgba_def nth_append)
      (simp add: default_rgba_def)
qed

theorem rgba_tuple_length_witness:
  "length [Py_float 0, Py_int 1, Py_bool True, Py_int 1, Py_int 0] > 4 \<and>
   Cuboid_set_rgba exact_conv red_cuboid [Py_float 0, Py_int 1, Py_bool True, Py_int 1, Py_int 0]
     = (Inl (Invalid_argument ''Expected a tuple of size <= 4''), red_cuboid) \<and>
   length [Py_float 0, Py_int 1, Py_bool True] = 3 \<and>
   cast_float exact_conv (Py_float 0) \<noteq> None \<and> cast_float exact_conv (Py_int 1) \<noteq> None \<and>
   cast_float exact_conv (Py_bool True) \<noteq> None \<and>
   Cuboid_set_rgba exact_conv red_cuboid [Py_float 0, Py_int 1, Py_bool True]
     = (Inr (), red_cuboid\<lparr>cuboid_rgba := [Float 0, Float 1, Float 1, Float 1]\<rparr>) \<and>
   check_array (f_array [4, 4] identity_pose) 16 2 CHR ''F'' = Inr () \<and>
   Cuboid_init exact_conv (f_array [4, 4] identity_pose) [Py_float 0, Py_int 1, Py_bool True]
     = Inr \<lparr>cuboid_transform = identity_pose,
            cuboid_rgba = [Float 0, Float 1, Float 1, Float 1]\<rparr> \<and>
   cuboid_rgba (snd (Cuboid_set_rgba exact_conv red_cuboid
                       [Py_float 0, Py_int 1, Py_bool True])) ! 3 = Float 1"
proof -
  have h: "length [Py_float 0, Py_int 1, Py_bool True, Py_int 1, Py_int 0] > 4"
    "length [Py_float 0, Py_int 1, Py_bool True] < 4"
    "length [Py_float 0, Py_int 1, Py_bool True] = 3"
    "\<forall>x\<in>set [Py_float 0, Py_int 1, Py_bool True]. cast_float exact_conv x \<noteq> None"
    "check_array (f_array [4, 4] identity_pose) 16 2 CHR ''F'' = Inr ()"
    by (simp_all add: eval_defs identity_pose_def exact_conv_def)
  show ?thesis
    using h
      rgba_tuple_length [of "[Py_float 0, Py_int 1, Py_bool True, Py_int 1, Py_int 0]"
        exact_conv red_cuboid "f_array [4, 4] identity_pose"]
      rgba_tuple_length [of "[Py_float 0, Py_int 1, Py_bool True]"
        exact_conv red_cuboid "f_array [4, 4] identity_pose"]
    by (simp add: copy16_def f_array_def identity_pose_def exact_conv_def)
qed

text \<open>
  The claim C6 as worded lets every tuple of fewer than 4 elements succeed. The
  1-tuple holding a string is refused with a type error.
\<close>

theorem rgba_short_tuple_counterexample:
  "length [Py_str ''red''] < 4 \<and>
   Cuboid_set_rgba exact_conv red_cuboid [Py_str ''red'']
     = (Inl (Type_error ''Expected a tuple of floats''), red_cuboid)"
  by (simp add: rgba_eval_defs tuple_loop.simps)

text \<open>
  C8, as the code has it. When the tuple has at most 4 elements and one of them is
  not convertible to \<open>float\<close>, \<open>Cuboid.set_rgba\<close> and \<open>Label.set_rgba\<close> raise a type
  error and leave the colour as it was, and so does the construction of a cuboid
  whose pose passes its check. Whatever the length of the tuple, an element that is
  not convertible makes the call fail with some error, the colour unchanged. This
  holds whatever the numeric conversions of the platform are.
\<close>

theorem rgba_type_error:
  "(length rgba \<le> 4 \<and> (\<exists>x\<in>set rgba. cast_float cv x = None) \<longrightarrow>
      Cuboid_set_rgba cv cu rgba = (Inl (Type_error ''Expected a tuple of floats''), cu) \<and>
      Label_set_rgba cv lb rgba = (Inl (Type_error ''Expected a tuple of floats''), lb) \<and>
      (check_array pose 16 2 CHR ''F'' = Inr () \<longrightarrow>
         Cuboid_init cv pose rgba = Inl (Type_error ''Expected a tuple of floats''))) \<and>
   ((\<exists>x\<in>set rgba. cast_float cv x = None) \<longrightarrow>
      (\<exists>e. fst (Cuboid_set_rgba cv cu rgba) = Inl e) \<and> snd (Cuboid_set_rgba cv cu rgba) = cu \<and>
      (\<exists>e. fst (Label_set_rgba cv lb rgba) = Inl e) \<and> snd (Label_set_rgba cv lb rgba) = lb \<and>
      (\<exists>e. Cuboid_init cv pose rgba = Inl e))"
proof (intro conjI impI)
  assume "length rgba \<le> 4 \<and> (\<exists>x\<in>set rgba. cast_float cv x = None)"
  then have t: "tuple_to_float_array cv default_rgba rgba
      = Inl (Type_error ''Expected a tuple of floats'')"
    by (intro tuple_to_float_array_bad_element) (simp_all add: length_default_rgba)
  show "Cuboid_set_rgba cv cu rgba = (Inl (Type_error ''Expected a tuple of floats''), cu)"
    by (simp add: Cuboid_set_rgba_def t)
  show "Label_set_rgba cv lb rgba = (Inl (Type_error ''Expected a tuple of floats''), lb)"
    by (simp add: Label_set_rgba_def t)
  assume "check_array pose 16 2 CHR ''F'' = Inr ()"
  then show "Cuboid_init cv pose rgba = Inl (Type_error ''Expected a tuple of floats'')"
    by (simp add: Cuboid_init_def t)
next
  assume "\<exists>x\<in>set rgba. cast_float cv x = None"
  then obtain e where t: "tuple_to_float_array cv default_rgba rgba = Inl e"
    using tuple_to_float_array_error by blast
  show "\<exists>e. fst (Cuboid_set_rgba cv cu rgba) = Inl e"
    and "snd (Cuboid_set_rgba cv cu rgba) = cu"
    by (simp_all add: Cuboid_set_rgba_def t)
  show "\<exists>e. fst (Label_set_rgba cv lb rgba) = Inl e"
    and "snd (Label_set_rgba cv lb rgba) = lb"
    by (simp_all add: Label_set_rgba_def t)
  show "\<exists>e. Cuboid_init cv pose rgba = Inl e"
    by (cases "check_array pose 16 2 CHR ''F''") (simp_all add: Cuboid_init_def t)
qed

theorem rgba_type_error_witness:
  "length [Py_float 1, Py_str ''x'', Py_none] \<le> 4 \<and>
   cast_float exact_conv (Py_str ''x'') = None \<and>
   Cuboid_set_rgba exact_conv red_cuboid [Py_float 1, Py_str ''x'', Py_none]
     = (Inl (Type_error ''Expected a tuple of floats''), red_cuboid) \<and>
   Label_set_rgba exact_conv hello_label [Py_float 1, Py_str ''x'', Py_none]
     = (Inl (Type_error ''Expected a tuple of floats''), hello_label) \<and>
   check_array (f_array [4, 4] identity_pose) 16 2 CHR ''F'' = Inr () \<and>
   Cuboid_init exact_conv (f_array [4, 4] identity_pose) [Py_float 1, Py_str ''x'', Py_none]
     = Inl (Type_error ''Expected a tuple of floats'')"
proof -
  have h: "length [Py_float 1, Py_str ''x'', Py_none] \<le> 4"
    "\<exists>x\<in>set [Py_float 1, Py_str ''x'', Py_none]. cast_float exact_conv x = None"
    "check_array (f_array [4, 4] identity_pose) 16 2 CHR ''F'' = Inr ()"
    "cast_float exact_conv (Py_str ''x'') = None"
    by (simp_all add: eval_defs identity_pose_def)
  show ?thesis
    using h rgba_type_error [of "[Py_float 1, Py_str ''x'', Py_none]" exact_conv red_cuboid
        hello_label "f_array [4, 4] identity_pose"]
    by blast
qed

text \<open>
  The claim C8 as worded promises a type error whenever an element is not
  convertible. The length of the tuple is tested first: a 5-tuple ending in a string
  is refused with an invalid-argument error.
\<close>

theorem rgba_long_tuple_counterexample:
  "cast_float exact_conv (Py_str ''x'') = None \<and>
   Cuboid_set_rgba exact_conv red_cuboid
       [Py_float 0, Py_float 1, Py_float 0, Py_float 1, Py_str ''x'']
     = (Inl (Invalid_argument ''Expected a tuple of size <= 4''), red_cuboid) \<and>
   Label_set_rgba exact_conv hello_label
       [Py_float 0, Py_float 1, Py_float 0, Py_float 1, Py_str ''x'']
     = (Inl (Invalid_argument ''Expected a tuple of size <= 4''), hello_label)"
  using rgba_too_long [of "[Py_float 0, Py_float 1, Py_float 0, Py_float 1, Py_str ''x'']"
      exact_conv]
  by (simp add: Cuboid_set_rgba_def Label_set_rgba_def)

subsection \<open>The rendering loop: one batch\<close>

lemma batch_frame_count: "frame_count (batch env i s) = frame_count s + (check_every - i)"
proof (induction env i s rule: batch.induct)
  case (1 env i s)
  show ?case
  proof (cases "i < check_every")
    case True
    then have "frame_count (batch env i s) = frame_count (run_once env s) + (check_every - (i + 1))"
      using "1.IH" by (simp add: batch.simps [of env i s])
    with True show ?thesis
      by (simp add: run_once_def)
  next
    case False
    then show ?thesis
      by (simp add: batch.simps [of env i s])
  qed
qed

lemma batch_visible: "visible_flag (batch env i s) = visible_flag s"
proof (induction env i s rule: batch.induct)
  case (1 env i s)
  show ?case
  proof (cases "i < check_every")
    case True
    then have "visible_flag (batch env i s) = visible_flag (run_once env s)"
      using "1.IH" by (simp add: batch.simps [of env i s])
    then show ?thesis
      by (simp add: run_once_def)
  next
    case False
    then show ?thesis
      by (simp add: batch.simps [of env i s])
  qed
qed



lemma batch_stops:
  "(p < frame_count s \<and> \<not> running_flag s) \<or>
   (frame_count s \<le> p \<and> p < frame_count s + (check_every - i) \<and> flag_write env p = Some False) \<Longrightarrow>
   \<forall>k. p < k \<and> k < frame_count s + (check_every - i) \<longrightarrow> flag_write env k \<noteq> Some True \<Longrightarrow>
   \<not> running_flag (batch env i s)"
proof (induction env i s rule: batch.induct)
  case (1 env i s)
  show ?case
  proof (cases "i < check_every")
    case False
    with "1.prems"(1) show ?thesis
      by (auto simp: batch.simps [of env i s])
  next
    case True
    let ?s = "run_once env s"
    have fc: "frame_count ?s = Suc (frame_count s)"
      by (simp add: run_once_def)
    have stopped: "p < frame_count ?s \<and> \<not> running_flag ?s \<or>
        frame_count ?s \<le> p \<and> p < frame_count ?s + (check_every - (i + 1)) \<and>
        flag_write env p = Some False"
    proof (cases "p < frame_count s")
      case before: True
      with "1.prems"(1) have nr: "\<not> running_flag s" by simp
      have "flag_write env (frame_count s) \<noteq> Some True"
        using "1.prems"(2) before True by simp
      with nr have "\<not> running_flag ?s"
        by (cases "flag_write env (frame_count s)") (auto simp: run_once_def)
      with before fc show ?thesis by simp
    next
      case False
      with "1.prems"(1) have in_batch: "frame_count s \<le> p"
        "p < frame_count s + (check_every - i)" "flag_write env p = Some False"
        by auto
      show ?thesis
      proof (cases "p = frame_count s")
        case True
        with in_batch(3) have "\<not> running_flag ?s"
          by (simp add: run_once_def)
        with True fc show ?thesis by simp
      next
        case False
        with in_batch fc \<open>i < check_every\<close> show ?thesis by simp
      qed
    qed
    have "frame_count ?s + (check_every - (i + 1)) = frame_count s + (check_every - i)"
      using True fc by simp
    then have later: "\<forall>k. p < k \<and> k < frame_count ?s + (check_every - (i + 1)) \<longrightarrow>
        flag_write env k \<noteq> Some True"
      using "1.prems"(2) by simp
    from "1.IH" [OF True stopped later] True show ?thesis
      by (simp add: batch.simps [of env i s])
  qed
qed

subsection \<open>The rendering loop: from batch to batch\<close>

lemma run_loop_exit: "\<not> running_flag s \<Longrightarrow> run_loop env s = Some (Inr (), s)"
  by (simp add: run_loop.simps [of env s] running_get_def)

lemma run_loop_raise:
  "running_flag s \<Longrightarrow> check_signals env (frame_count s) \<noteq> 0 \<Longrightarrow>
   run_loop env s = Some (Inl Error_already_set, s)"
  by (simp add: run_loop.simps [of env s] running_get_def PyErr_CheckSignals_def)

lemma run_loop_step:
  "running_flag s \<Longrightarrow> check_signals env (frame_count s) = 0 \<Longrightarrow>
   run_loop env s = run_loop env (batch env 0 s)"
  by (simp add: run_loop.simps [of env s] running_get_def PyErr_CheckSignals_def)

lemma run_loop_stop_in_batch:
  assumes "running_flag s" and "check_signals env (frame_count s) = 0"
    and "frame_count s \<le> p" and "p < frame_count s + check_every"
    and "flag_write env p = Some False"
    and "\<forall>k. p < k \<and> k < frame_count s + check_every \<longrightarrow> flag_write env k \<noteq> Some True"
  shows "run_loop env s = Some (Inr (), batch env 0 s)" and "\<not> running_flag (batch env 0 s)"
proof -
  show stopped: "\<not> running_flag (batch env 0 s)"
    using assms by (intro batch_stops [where p = p]) auto
  have "run_loop env s = run_loop env (batch env 0 s)"
    using assms(1,2) by (simp add: run_loop_step)
  with stopped show "run_loop env s = Some (Inr (), batch env 0 s)"
    by (simp add: run_loop_exit)
qed

lemma loop_head_frame_count:
  "frame_count (loop_head env self j) = frame_count self + check_every * j"
  by (induction j) (simp_all add: running_set_def visible_set_def batch_frame_count)

lemma run_loop_reach:
  "\<forall>i<j. running_flag (loop_head env self i) \<and>
         check_signals env (frame_count self + check_every * i) = 0 \<Longrightarrow>
   run_loop env (loop_head env self 0) = run_loop env (loop_head env self j)"
proof (induction j)
  case 0
  show ?case by simp
next
  case (Suc j)
  have "run_loop env (loop_head env self 0) = run_loop env (loop_head env self j)"
    using Suc.prems by (intro Suc.IH) simp
  also have "\<dots> = run_loop env (batch env 0 (loop_head env self j))"
    using Suc.prems by (intro run_loop_step) (simp_all add: loop_head_frame_count)
  finally show ?case by simp
qed


lemma run_loop_result:
  "run_loop env s = Some r \<Longrightarrow>
   visible_flag (snd r) = visible_flag s \<and>
   (\<exists>b. frame_count (snd r) = frame_count s + check_every * b) \<and>
   (case fst r of
      Inl e \<Rightarrow> e = Error_already_set \<and> running_flag (snd r) \<and>
               check_signals env (frame_count (snd r)) \<noteq> 0
    | Inr u \<Rightarrow> \<not> running_flag (snd r))"
proof (induction env s r rule: run_loop.raw_induct [rotated 1, consumes 1])
  case (1 loop env s r)
  have ex: "\<exists>b. frame_count s = frame_count s + check_every * b"
    by (rule exI [of _ 0]) simp
  show ?case
  proof (cases "running_get s")
    case False
    with "1.hyps" have r: "r = (Inr (), s)" by simp
    show ?thesis
      unfolding r using False ex by (simp add: running_get_def)
  next
    case True
    show ?thesis
    proof (cases "PyErr_CheckSignals env s \<noteq> 0")
      case raised: True
      with True "1.hyps" have r: "r = (Inl Error_already_set, s)" by simp
      show ?thesis
        unfolding r using True raised ex
        by (simp add: running_get_def PyErr_CheckSignals_def)
    next
      case False
      with True "1.hyps" have "loop env (batch env 0 s) = Some r" by simp
      from "1.IH" [OF this] obtain b where
        v: "visible_flag (snd r) = visible_flag (batch env 0 s)" and
        f: "frame_count (snd r) = frame_count (batch env 0 s) + check_every * b" and
        c: "(case fst r of
              Inl e \<Rightarrow> e = Error_already_set \<and> running_flag (snd r) \<and>
                       check_signals env (frame_count (snd r)) \<noteq> 0
            | Inr u \<Rightarrow> \<not> running_flag (snd r))"
        by blast
      have "frame_count (snd r) = frame_count s + check_every * (b + 1)"
        using f by (simp add: batch_frame_count)
      then have "\<exists>b. frame_count (snd r) = frame_count s + check_every * b" ..
      with v c show ?thesis
        by (simp only: batch_visible)
    qed
  qed
qed



lemma run_unfold:
  "run env self =
     (case run_loop env (self\<lparr>running_flag := True, visible_flag := True\<rparr>) of
        None \<Rightarrow> None
      | Some (Inl e, self') \<Rightarrow> Some (Inl e, self')
      | Some (Inr u, self') \<Rightarrow> Some (Inr (), self'\<lparr>visible_flag := False\<rparr>))"
  by (simp add: run_def running_set_def visible_set_def split: option.splits sum.splits prod.splits)

lemma check_every_10: "check_every = 10"
  by (simp add: check_every_def)

text \<open>
  C1, as the code has it. Take an execution of \<open>run\<close> that reaches batch \<open>b\<close> with
  the loop still going: at each evaluation of the loop condition up to there the
  running flag is set and the signal check finds nothing. During frame-step \<open>p\<close> of
  that batch another thread sets the running flag to false, and nobody sets it to
  true again in what remains of the batch. Then \<open>run\<close> returns, normally, at the
  end of that batch: it has made \<open>K (b + 1)\<close> frame-steps with \<open>K = 10\<close>, so at most
  \<open>K\<close> of them from step \<open>p\<close> on, and it does not hang.
\<close>

theorem run_returns_after_stop:
  assumes reach: "\<forall>j\<le>b. running_flag (loop_head env self j) \<and>
                   check_signals env (frame_count self + check_every * j) = 0"
    and stop: "flag_write env p = Some False"
    and lo: "frame_count self + check_every * b \<le> p"
    and hi: "p < frame_count self + check_every * (b + 1)"
    and rest: "\<forall>k. p < k \<and> k < frame_count self + check_every * (b + 1) \<longrightarrow>
                 flag_write env k \<noteq> Some True"
  shows "\<exists>self'. run env self = Some (Inr (), self') \<and>
           frame_count self' = frame_count self + check_every * (b + 1) \<and>
           p < frame_count self' \<and> frame_count self' \<le> p + check_every \<and>
           check_every = 10 \<and> \<not> running_flag self' \<and> \<not> visible_flag self'"
proof -
  let ?h = "loop_head env self b"
  let ?s = "batch env 0 ?h"
  have fc: "frame_count ?h = frame_count self + check_every * b"
    by (rule loop_head_frame_count)
  have "run_loop env (loop_head env self 0) = run_loop env ?h"
    using reach by (intro run_loop_reach) simp
  moreover have "run_loop env ?h = Some (Inr (), ?s)" and stopped: "\<not> running_flag ?s"
    using reach stop lo hi rest
    by (intro run_loop_stop_in_batch [where p = p]; simp add: fc)+
  ultimately have "run_loop env (self\<lparr>running_flag := True, visible_flag := True\<rparr>)
      = Some (Inr (), ?s)"
    by (simp add: running_set_def visible_set_def)
  then have "run env self = Some (Inr (), ?s\<lparr>visible_flag := False\<rparr>)"
    by (simp add: run_unfold)
  moreover have "frame_count ?s = frame_count self + check_every * (b + 1)"
    by (simp add: batch_frame_count fc)
  moreover have "p < frame_count self + check_every * (b + 1)"
    and "frame_count self + check_every * (b + 1) \<le> p + check_every"
    using lo hi by simp_all
  ultimately show ?thesis
    using stopped by (simp add: check_every_10)
qed

theorem run_returns_after_stop_witness:
  "running_flag (loop_head (script_env [(3, False), (5, True), (13, False)]) fresh_viz 1) \<and>
   flag_write (script_env [(3, False), (5, True), (13, False)]) 3 = Some False \<and>
   flag_write (script_env [(3, False), (5, True), (13, False)]) 13 = Some False \<and>
   run (script_env [(3, False), (5, True), (13, False)]) fresh_viz
     = Some (Inr (), \<lparr>running_flag = False, visible_flag = False, frame_count = 20\<rparr>) \<and>
   (\<exists>self'. run (script_env [(3, False), (5, True), (13, False)]) fresh_viz
        = Some (Inr (), self') \<and>
      frame_count self' \<le> 13 + 10 \<and> \<not> running_flag self')"
proof -
  let ?env = "script_env [(3, False), (5, True), (13, False)]"
  have heads: "running_flag (loop_head ?env fresh_viz 0)"
    "running_flag (loop_head ?env fresh_viz 1)"
    by code_simp+
  have quiet: "check_signals ?env k = 0" for k
    by (simp add: script_env_def)
  have "j = 0 \<or> j = 1" if "j \<le> 1" for j :: nat
    using that by auto
  with heads quiet have reach: "\<forall>j\<le>1. running_flag (loop_head ?env fresh_viz j) \<and>
      check_signals ?env (frame_count fresh_viz + check_every * j) = 0"
    by blast
  have h: "flag_write ?env 13 = Some False"
    "frame_count fresh_viz + check_every * 1 \<le> 13"
    "13 < frame_count fresh_viz + check_every * (1 + 1)"
    "\<forall>k. 13 < k \<and> k < frame_count fresh_viz + check_every * (1 + 1) \<longrightarrow>
        flag_write ?env k \<noteq> Some True"
    "flag_write ?env 3 = Some False"
    by (simp_all add: script_env_def fresh_viz_def check_every_def)
  have ev: "run ?env fresh_viz
     = Some (Inr (), \<lparr>running_flag = False, visible_flag = False, frame_count = 20\<rparr>)"
    by code_simp
  show ?thesis
    using run_returns_after_stop [OF reach h(1-4)] h(1,5) heads(2) ev
    by (auto simp: check_every_def)
qed

text \<open>
  The claim C1 as worded covers the execution in which the flag is set to true
  again within the batch. With \<open>running(false)\<close> during step 13, \<open>running(true)\<close>
  during step 15 and \<open>running(false)\<close> during step 27, \<open>run\<close> returns after 30
  frame-steps, 17 of them from step 13 on.
\<close>

theorem run_flag_set_again_counterexample:
  "flag_write (script_env [(13, False), (15, True), (27, False)]) 13 = Some False \<and>
   run (script_env [(13, False), (15, True), (27, False)]) fresh_viz
     = Some (Inr (), \<lparr>running_flag = False, visible_flag = False, frame_count = 30\<rparr>) \<and>
   \<not> (30 :: nat) \<le> 13 + 10"
proof -
  have "flag_write (script_env [(13, False), (15, True), (27, False)]) 13 = Some False"
    by (simp add: script_env_def)
  moreover have "run (script_env [(13, False), (15, True), (27, False)]) fresh_viz
     = Some (Inr (), \<lparr>running_flag = False, visible_flag = False, frame_count = 30\<rparr>)"
    by code_simp
  ultimately show ?thesis by simp
qed



text \<open>
  C9. When \<open>run\<close> ends with the cancellation, the window is still visible: the
  visibility set at entry is not reset. When \<open>run\<close> returns normally, the trailing
  \<open>visible(false)\<close> has made the window invisible. A signal pending at the first
  check ends \<open>run\<close> with the visualizer as the two calls at entry left it.
\<close>

theorem run_visible_on_exit:
  "(run env self = Some (Inl e, self') \<longrightarrow> visible_flag self') \<and>
   (run env self = Some (Inr u, self') \<longrightarrow> \<not> visible_flag self') \<and>
   (check_signals env (frame_count self) \<noteq> 0 \<longrightarrow>
      run env self
        = Some (Inl Error_already_set, self\<lparr>running_flag := True, visible_flag := True\<rparr>))"
proof (intro conjI impI)
  let ?s = "self\<lparr>running_flag := True, visible_flag := True\<rparr>"
  {
    assume "run env self = Some (Inl e, self')"
    then have l: "run_loop env ?s = Some (Inl e, self')"
      by (auto simp: run_unfold split: option.splits sum.splits prod.splits)
    from run_loop_result [OF l] show "visible_flag self'"
      by simp
  }
  {
    assume "run env self = Some (Inr u, self')"
    then show "\<not> visible_flag self'"
      by (auto simp: run_unfold split: option.splits sum.splits prod.splits)
  }
  {
    assume "check_signals env (frame_count self) \<noteq> 0"
    then have "run_loop env ?s = Some (Inl Error_already_set, ?s)"
      by (intro run_loop_raise) simp_all
    then show "run env self = Some (Inl Error_already_set, ?s)"
      by (simp add: run_unfold)
  }
qed

theorem run_visible_on_exit_witness:
  "run (signal_env 17) fresh_viz
     = Some (Inl Error_already_set,
             \<lparr>running_flag = True, visible_flag = True, frame_count = 20\<rparr>) \<and>
   visible_flag \<lparr>running_flag = True, visible_flag = True, frame_count = 20\<rparr> \<and>
   run (stop_env 13) fresh_viz
     = Some (Inr (), \<lparr>running_flag = False, visible_flag = False, frame_count = 20\<rparr>) \<and>
   \<not> visible_flag \<lparr>running_flag = False, visible_flag = False, frame_count = 20\<rparr> \<and>
   check_signals (signal_env 0) (frame_count fresh_viz) \<noteq> 0 \<and>
   run (signal_env 0) fresh_viz
     = Some (Inl Error_already_set, fresh_viz\<lparr>running_flag := True, visible_flag := True\<rparr>)"
proof -
  have ev: "run (signal_env 17) fresh_viz
     = Some (Inl Error_already_set,
             \<lparr>running_flag = True, visible_flag = True, frame_count = 20\<rparr>)"
    "run (stop_env 13) fresh_viz
     = Some (Inr (), \<lparr>running_flag = False, visible_flag = False, frame_count = 20\<rparr>)"
    by code_simp+
  have h: "check_signals (signal_env 0) (frame_count fresh_viz) \<noteq> 0"
    by (simp add: signal_env_def)
  show ?thesis
    using ev h
      run_visible_on_exit [where env = "signal_env 17" and self = fresh_viz
        and e = Error_already_set
        and self' = "\<lparr>running_flag = True, visible_flag = True, frame_count = 20\<rparr>"]
      run_visible_on_exit [where env = "stop_env 13" and self = fresh_viz and u = "()"
        and self' = "\<lparr>running_flag = False, visible_flag = False, frame_count = 20\<rparr>"]
      run_visible_on_exit [where env = "signal_env 0" and self = fresh_viz]
    by blast
qed

subsection \<open>The structured constructor\<close>

text \<open>
  C2. The claim has the offset vectors of the cloud come from the offset component
  of the lookup table. The wrapper computes both arrays from the direction
  component: for the single-pixel sensor whose table has direction \<open>(1, 0, 0)\<close> and
  offset \<open>(0, 0, 3)\<close>, the cloud is built with offset \<open>(1, 0, 0)\<close>.
\<close>

theorem Cloud_init_structured_offset_is_direction:
  "cloud_offset (Cloud_init_structured (\<lambda>info. example_lut) example_info) = [1, 0, 0] \<and>
   cast_float_array (lut_offset example_lut) = [0, 0, 3] \<and>
   cloud_direction (Cloud_init_structured (\<lambda>info. example_lut) example_info) = [1, 0, 0] \<and>
   cloud_extrinsic (Cloud_init_structured (\<lambda>info. example_lut) example_info) = identity_pose"
  by (simp add: Cloud_init_structured_def viz_Cloud_structured_def cast_float_array_def
      example_lut_def example_info_def copy16_def identity_pose_def)

lemma Cloud_init_structured_fields:
  "cloud_offset (Cloud_init_structured make_xyz_lut info)
     = cast_float_array (lut_direction (make_xyz_lut info)) \<and>
   cloud_direction (Cloud_init_structured make_xyz_lut info)
     = cast_float_array (lut_direction (make_xyz_lut info)) \<and>
   cloud_extrinsic (Cloud_init_structured make_xyz_lut info) = copy16 (extrinsic info)"
  by (simp add: Cloud_init_structured_def viz_Cloud_structured_def Let_def)

end
